theory Spec2Isabelle
  imports Main "HOL-Library.Extended_Nat"
begin

section \<open>Python values and errors\<close>

text \<open>
  The program observes three things of a Python value: its class (through
  \<^verbatim>\<open>isinstance\<close>), its text (through \<^verbatim>\<open>str\<close>) and, for the name held by a Symbol,
  equality with the variable name. Integers, booleans, strings and \<^verbatim>\<open>None\<close> are
  carried as they are. A float, a complex number and an object of any other class are
  carried as the text \<^verbatim>\<open>str\<close> gives for them: floating-point arithmetic is never
  performed by the program.
\<close>

datatype pyval =
    PyInt int
  | PyBool bool
  | PyFloat string
  | PyComplex string
  | PyStr string
  | PyNone
  | PyObject string

text \<open>\<^verbatim>\<open>isinstance(value, (int, float, complex))\<close>; \<^verbatim>\<open>bool\<close> is a subclass of \<^verbatim>\<open>int\<close>.\<close>

fun is_numeric :: "pyval \<Rightarrow> bool" where
  "is_numeric (PyInt i) = True"
| "is_numeric (PyBool b) = True"
| "is_numeric (PyFloat t) = True"
| "is_numeric (PyComplex t) = True"
| "is_numeric (PyStr s) = False"
| "is_numeric PyNone = False"
| "is_numeric (PyObject t) = False"

text \<open>\<^verbatim>\<open>isinstance(value, str)\<close>.\<close>

fun is_str :: "pyval \<Rightarrow> bool" where
  "is_str (PyStr s) = True"
| "is_str v = False"

text \<open>The exceptions the program raises, each with its message.\<close>

datatype error =
    ValueError string
  | NotImplementedError string
  | AttributeError string
  | KeyError nat

text \<open>Sequencing of computations that may raise: the first exception propagates.\<close>

fun bindE :: "error + 'a \<Rightarrow> ('a \<Rightarrow> error + 'b) \<Rightarrow> error + 'b" where
  "bindE (Inl e) f = Inl e"
| "bindE (Inr x) f = f x"

subsection \<open>The text of a value\<close>

definition digit_char :: "nat \<Rightarrow> char" where
  "digit_char d = ''0123456789'' ! d"

fun str_nat :: "nat \<Rightarrow> string" where
  "str_nat n = (if n < 10 then [digit_char n] else str_nat (n div 10) @ [digit_char (n mod 10)])"

declare str_nat.simps [simp del]

definition str_int :: "int \<Rightarrow> string" where
  "str_int i = (if i < 0 then ''-'' @ str_nat (nat (- i)) else str_nat (nat i))"

text \<open>\<^verbatim>\<open>str(value)\<close>.\<close>

fun py_str :: "pyval \<Rightarrow> string" where
  "py_str (PyInt i) = str_int i"
| "py_str (PyBool b) = (if b then ''True'' else ''False'')"
| "py_str (PyFloat t) = t"
| "py_str (PyComplex t) = t"
| "py_str (PyStr s) = s"
| "py_str PyNone = ''None''"
| "py_str (PyObject t) = t"

text \<open>\<^verbatim>\<open>sep.join(parts)\<close>.\<close>

fun join :: "string \<Rightarrow> string list \<Rightarrow> string" where
  "join sep [] = []"
| "join sep [p] = p"
| "join sep (p # q # ps) = p @ sep @ join sep (q # ps)"

section \<open>The node model\<close>

text \<open>
  The classes that carry operands: \<^verbatim>\<open>Operator\<close> itself and its subclasses. \<^verbatim>\<open>Pow\<close> is
  written \<open>Pow_op\<close>, the name \<open>Pow\<close> being the power set of HOL.
\<close>

datatype opclass = Operator | Add | Sub | Mul | Div | Pow_op

text \<open>
  A node is an instance of \<^verbatim>\<open>Terminal\<close>, \<^verbatim>\<open>Number\<close> or \<^verbatim>\<open>Symbol\<close>, holding a value and
  no operands, or an instance of an operator class, holding its operands in order. The
  value of a Symbol has passed the constructor's \<^verbatim>\<open>isinstance(value, str)\<close> and is
  carried as a string. \<^verbatim>\<open>Expression\<close> itself is the base of the hierarchy: a bare instance
  of it renders as Python's default object text, which shows a memory address, and it is
  not a node of this model.
\<close>

datatype expr =
    Terminal pyval
  | Number pyval
  | Symbol string
  | Op opclass "expr list"

text \<open>The class attribute \<^verbatim>\<open>symbol\<close>: \<^verbatim>\<open>None\<close> on \<^verbatim>\<open>Operator\<close> itself.\<close>

fun symbol :: "opclass \<Rightarrow> pyval" where
  "symbol Operator = PyNone"
| "symbol Add = PyStr ''+''"
| "symbol Sub = PyStr ''-''"
| "symbol Mul = PyStr ''*''"
| "symbol Div = PyStr ''/''"
| "symbol Pow_op = PyStr ''^''"

text \<open>The class attribute \<^verbatim>\<open>precedence\<close> of the operator classes.\<close>

fun class_precedence :: "opclass \<Rightarrow> nat" where
  "class_precedence Operator = 0"
| "class_precedence Add = 1"
| "class_precedence Sub = 1"
| "class_precedence Mul = 2"
| "class_precedence Div = 2"
| "class_precedence Pow_op = 3"

text \<open>The attribute \<^verbatim>\<open>precedence\<close> of a node: \<^verbatim>\<open>float('inf')\<close> on the terminals.\<close>

fun precedence :: "expr \<Rightarrow> enat" where
  "precedence (Op c ops) = enat (class_precedence c)"
| "precedence e = \<infinity>"

text \<open>\<^verbatim>\<open>isinstance(e, Operator)\<close> and \<^verbatim>\<open>isinstance(e, Number)\<close>.\<close>

fun is_Operator :: "expr \<Rightarrow> bool" where
  "is_Operator (Op c ops) = True"
| "is_Operator e = False"

fun is_Number :: "expr \<Rightarrow> bool" where
  "is_Number (Number v) = True"
| "is_Number e = False"

text \<open>The name of a node's class, \<^verbatim>\<open>type(e).__name__\<close>.\<close>

fun opclass_name :: "opclass \<Rightarrow> string" where
  "opclass_name Operator = ''Operator''"
| "opclass_name Add = ''Add''"
| "opclass_name Sub = ''Sub''"
| "opclass_name Mul = ''Mul''"
| "opclass_name Div = ''Div''"
| "opclass_name Pow_op = ''Pow''"

fun class_name :: "expr \<Rightarrow> string" where
  "class_name (Terminal v) = ''Terminal''"
| "class_name (Number v) = ''Number''"
| "class_name (Symbol s) = ''Symbol''"
| "class_name (Op c ops) = opclass_name c"

subsection \<open>Constructors\<close>

text \<open>
  \<^verbatim>\<open>Operator.__init__\<close>, inherited by every operator class, \<^verbatim>\<open>Number.__init__\<close>,
  \<^verbatim>\<open>Symbol.__init__\<close> and \<^verbatim>\<open>Terminal.__init__\<close>, which checks nothing.
\<close>

definition new_Op :: "opclass \<Rightarrow> expr list \<Rightarrow> error + expr" where
  "new_Op c ops =
     (if length ops < 1 then Inl (ValueError ''Operators must have at least one operand'')
      else Inr (Op c ops))"

definition new_Number :: "pyval \<Rightarrow> error + expr" where
  "new_Number v =
     (if \<not> is_numeric v then Inl (ValueError ''Number value must be numeric'')
      else Inr (Number v))"

definition new_Symbol :: "pyval \<Rightarrow> error + expr" where
  "new_Symbol v =
     (case v of PyStr s \<Rightarrow> Inr (Symbol s)
      | _ \<Rightarrow> Inl (ValueError ''Symbol value must be a string''))"

definition new_Terminal :: "pyval \<Rightarrow> error + expr" where
  "new_Terminal v = Inr (Terminal v)"

section \<open>The renderer\<close>

text \<open>
  \<^verbatim>\<open>__str__\<close>, resolved by class: \<^verbatim>\<open>Terminal.__str__\<close> on the terminals,
  \<^verbatim>\<open>Mul.__str__\<close> on a Mul and \<^verbatim>\<open>Operator.__str__\<close> on every other operator class.
  The separator \<^verbatim>\<open>f" {self.symbol} "\<close> formats the class attribute with \<^verbatim>\<open>str\<close>.
\<close>

fun str_expr :: "expr \<Rightarrow> string" where
  "str_expr (Terminal v) = py_str v"
| "str_expr (Number v) = py_str v"
| "str_expr (Symbol s) = py_str (PyStr s)"
| "str_expr (Op c ops) =
     (if c = Mul then
        join '' * '' (map str_expr (filter is_Number ops @ filter (\<lambda>operand. \<not> is_Number operand) ops))
      else
        join ('' '' @ py_str (symbol c) @ '' '')
          (map (\<lambda>operand.
                  if is_Operator operand \<and> precedence operand < enat (class_precedence c)
                  then ''('' @ str_expr operand @ '')''
                  else str_expr operand) ops))"

text \<open>
  The two decisions of the renderer, named for the statements below: the order in which
  a node of class \<open>c\<close> lists its operands (a Mul puts its Numbers first), and the text it
  appends for one operand (\<^verbatim>\<open>Operator.__str__\<close> may parenthesize, \<^verbatim>\<open>Mul.__str__\<close>
  never does). \<open>str_expr_parts\<close> below shows that \<open>str_expr\<close> joins exactly these texts.
\<close>

definition render_order :: "opclass \<Rightarrow> expr list \<Rightarrow> expr list" where
  "render_order c ops =
     (if c = Mul then filter is_Number ops @ filter (\<lambda>operand. \<not> is_Number operand) ops else ops)"

definition rendered_operand :: "opclass \<Rightarrow> expr \<Rightarrow> string" where
  "rendered_operand c operand =
     (if c \<noteq> Mul \<and> is_Operator operand \<and> precedence operand < enat (class_precedence c)
      then ''('' @ str_expr operand @ '')'' else str_expr operand)"

section \<open>The combinator API\<close>

text \<open>
  The argument \<^verbatim>\<open>other\<close> of an infix method is an Expression or any other Python value.
\<close>

datatype operand = Expr expr | Raw pyval

text \<open>
  The first two lines of every method that builds a node:
  \<^verbatim>\<open>if not isinstance(other, Expression): other = Number(other)\<close>.
\<close>

fun as_expression :: "operand \<Rightarrow> error + expr" where
  "as_expression (Expr e) = Inr e"
| "as_expression (Raw v) = new_Number v"

definition Expression_add :: "expr \<Rightarrow> operand \<Rightarrow> error + expr" where
  "Expression_add self other = bindE (as_expression other) (\<lambda>other. new_Op Add [self, other])"

definition Expression_sub :: "expr \<Rightarrow> operand \<Rightarrow> error + expr" where
  "Expression_sub self other = bindE (as_expression other) (\<lambda>other. new_Op Sub [self, other])"

definition Expression_mul :: "expr \<Rightarrow> operand \<Rightarrow> error + expr" where
  "Expression_mul self other = bindE (as_expression other) (\<lambda>other. new_Op Mul [self, other])"

definition Expression_truediv :: "expr \<Rightarrow> operand \<Rightarrow> error + expr" where
  "Expression_truediv self other = bindE (as_expression other) (\<lambda>other. new_Op Div [self, other])"

definition Expression_pow :: "expr \<Rightarrow> operand \<Rightarrow> error + expr" where
  "Expression_pow self other = bindE (as_expression other) (\<lambda>other. new_Op Pow_op [self, other])"

definition Expression_radd :: "expr \<Rightarrow> operand \<Rightarrow> error + expr" where
  "Expression_radd self other = Expression_add self other"

definition Expression_rsub :: "expr \<Rightarrow> operand \<Rightarrow> error + expr" where
  "Expression_rsub self other = bindE (as_expression other) (\<lambda>other. new_Op Sub [other, self])"

definition Expression_rmul :: "expr \<Rightarrow> operand \<Rightarrow> error + expr" where
  "Expression_rmul self other = Expression_mul self other"

definition Expression_rtruediv :: "expr \<Rightarrow> operand \<Rightarrow> error + expr" where
  "Expression_rtruediv self other = bindE (as_expression other) (\<lambda>other. new_Op Div [other, self])"

definition Expression_rpow :: "expr \<Rightarrow> operand \<Rightarrow> error + expr" where
  "Expression_rpow self other = bindE (as_expression other) (\<lambda>other. new_Op Pow_op [other, self])"

section \<open>The differentiation engine\<close>

text \<open>
  The default of the dispatch, reached by every class without a registered rule. Its
  \<^verbatim>\<open>raise NotImplementedError(f"Cannot differentiate a {type(expr)._name_}")\<close>
  evaluates the message first, and a class has no attribute \<^verbatim>\<open>_name_\<close>: the
  attribute lookup raises and the NotImplementedError is never built.
\<close>

definition default_rule :: "string \<Rightarrow> error + expr" where
  "default_rule cls =
     Inl (AttributeError (''type object '' @ [CHR 0x27] @ cls @ [CHR 0x27]
                          @ '' has no attribute '' @ [CHR 0x27] @ ''_name_'' @ [CHR 0x27]))"

text \<open>
  The exception of \<^verbatim>\<open>f, g = expr.operands\<close> on a tuple of \<open>n\<close> operands, \<open>n\<close> other
  than 2: a ValueError, with the message CPython 3.12 gives.
\<close>

definition unpack_error :: "nat \<Rightarrow> error" where
  "unpack_error n =
     ValueError (if n < 2 then ''not enough values to unpack (expected 2, got '' @ str_nat n @ '')''
                 else ''too many values to unpack (expected 2)'')"

text \<open>
  \<^verbatim>\<open>differentiate(expr, var=var)\<close>, dispatched on the class of \<open>expr\<close>; the rules call
  the constructors in Python's order of evaluation, left to right and arguments first.
  \<open>differentiate_each\<close> is the list comprehension of the Add rule.
\<close>

fun differentiate :: "expr \<Rightarrow> string \<Rightarrow> error + expr"
  and differentiate_each :: "expr list \<Rightarrow> string \<Rightarrow> error + expr list" where
  "differentiate (Terminal v) var = default_rule (class_name (Terminal v))"
| "differentiate (Number v) var = new_Number (PyInt 0)"
| "differentiate (Symbol s) var = (if s = var then new_Number (PyInt 1) else new_Number (PyInt 0))"
| "differentiate (Op c ops) var =
     (case c of
        Add \<Rightarrow> bindE (differentiate_each ops var) (new_Op Add)
      | Mul \<Rightarrow>
          (case ops of
             [f, g] \<Rightarrow>
               bindE (differentiate f var) (\<lambda>df.
               bindE (new_Op Mul [df, g]) (\<lambda>l.
               bindE (differentiate g var) (\<lambda>dg.
               bindE (new_Op Mul [dg, f]) (\<lambda>r.
               new_Op Add [l, r]))))
           | _ \<Rightarrow> Inl (unpack_error (length ops)))
      | Div \<Rightarrow>
          (case ops of
             [f, g] \<Rightarrow>
               bindE (differentiate f var) (\<lambda>df.
               bindE (new_Op Mul [df, g]) (\<lambda>l.
               bindE (differentiate g var) (\<lambda>dg.
               bindE (new_Op Mul [dg, f]) (\<lambda>r.
               bindE (new_Op Sub [l, r]) (\<lambda>numerator.
               bindE (new_Number (PyInt 2)) (\<lambda>two.
               bindE (new_Op Pow_op [g, two]) (\<lambda>denominator.
               new_Op Div [numerator, denominator])))))))
           | _ \<Rightarrow> Inl (unpack_error (length ops)))
      | Pow_op \<Rightarrow>
          (case ops of
             [base, exponent] \<Rightarrow>
               if is_Number exponent then
                 bindE (new_Number (PyInt 1)) (\<lambda>one.
                 bindE (new_Op Sub [exponent, one]) (\<lambda>lowered.
                 bindE (new_Op Pow_op [base, lowered]) (\<lambda>power.
                 bindE (new_Op Mul [exponent, power]) (\<lambda>l.
                 bindE (differentiate base var) (\<lambda>dbase.
                 new_Op Mul [l, dbase])))))
               else Inl (NotImplementedError ''Variable exponents are not yet supported.'')
           | _ \<Rightarrow> Inl (unpack_error (length ops)))
      | Sub \<Rightarrow> default_rule (class_name (Op c ops))
      | Operator \<Rightarrow> default_rule (class_name (Op c ops)))"
| "differentiate_each [] var = Inr []"
| "differentiate_each (operand # ops) var =
     bindE (differentiate operand var) (\<lambda>d.
     bindE (differentiate_each ops var) (\<lambda>ds.
     Inr (d # ds)))"

section \<open>The traversal engine\<close>

text \<open>
  The memo of \<^verbatim>\<open>postvisitor\<close> is a dictionary keyed by node, and the classes define
  neither \<^verbatim>\<open>__eq__\<close> nor \<^verbatim>\<open>__hash__\<close>: a key is the identity of a node. The traversal is
  therefore modelled over a store of node objects, in which a node is known by its address
  and holds the addresses of its operands, so that one node can be an operand twice and
  two nodes of equal content stay apart.
\<close>

type_synonym addr = nat

datatype node =
    TerminalNode pyval
  | NumberNode pyval
  | SymbolNode string
  | OpNode opclass "addr list"

fun node_operands :: "node \<Rightarrow> addr list" where
  "node_operands (OpNode c ops) = ops"
| "node_operands n = []"

text \<open>The store: the node at address \<open>a\<close> is \<open>h ! a\<close>.\<close>

type_synonym heap = "node list"

text \<open>
  \<^verbatim>\<open>node.operands\<close>. An address outside the store stands for an operand that is not an
  Expression, which has no such attribute.
\<close>

definition operands_at :: "heap \<Rightarrow> addr \<Rightarrow> error + addr list" where
  "operands_at h a =
     (if a < length h then Inr (node_operands (h ! a))
      else Inl (AttributeError (''object has no attribute '' @ [CHR 0x27] @ ''operands'' @ [CHR 0x27])))"

text \<open>\<^verbatim>\<open>tuple(visited[c] for c in node.operands)\<close>: the first missing key raises.\<close>

fun lookup_all :: "(addr \<rightharpoonup> 'r) \<Rightarrow> addr list \<Rightarrow> error + 'r list" where
  "lookup_all visited [] = Inr []"
| "lookup_all visited (c # cs) =
     (case visited c of
        None \<Rightarrow> Inl (KeyError c)
      | Some r \<Rightarrow> bindE (lookup_all visited cs) (\<lambda>rs. Inr (r # rs)))"

text \<open>
  The \<^verbatim>\<open>while stack:\<close> loop. The stack is a list whose head is the top, the item
  \<^verbatim>\<open>stack.pop()\<close> takes; pushing the unvisited operands in reversed order leaves the
  first of them on top. \<open>fn\<close> receives the node, the results of its operands and the
  keyword arguments, and is taken to return a value. \<open>calls\<close> is not a variable of the
  source: it logs, in order, the nodes \<open>fn\<close> has been applied to. The loop need not end
  (on a store with a cycle it does not), so its result is optional.
\<close>

partial_function (option) visit_loop ::
  "heap \<Rightarrow> (addr \<Rightarrow> 'r list \<Rightarrow> 'k \<Rightarrow> 'r) \<Rightarrow> 'k \<Rightarrow> (addr \<times> bool) list \<Rightarrow> (addr \<rightharpoonup> 'r) \<Rightarrow> addr list
     \<Rightarrow> (error + (addr \<rightharpoonup> 'r) \<times> addr list) option" where
  "visit_loop h fn kwargs stack visited calls =
     (case stack of
        [] \<Rightarrow> Some (Inr (visited, calls))
      | (node, processed) # rest \<Rightarrow>
          if visited node \<noteq> None then visit_loop h fn kwargs rest visited calls
          else if processed then
            (case operands_at h node of
               Inl e \<Rightarrow> Some (Inl e)
             | Inr ops \<Rightarrow>
                 (case lookup_all visited ops of
                    Inl e \<Rightarrow> Some (Inl e)
                  | Inr operand_results \<Rightarrow>
                      visit_loop h fn kwargs rest
                        (visited(node \<mapsto> fn node operand_results kwargs)) (calls @ [node])))
          else
            (case operands_at h node of
               Inl e \<Rightarrow> Some (Inl e)
             | Inr ops \<Rightarrow>
                 visit_loop h fn kwargs
                   (map (\<lambda>child. (child, False)) (filter (\<lambda>child. visited child = None) ops)
                    @ (node, True) # rest)
                   visited calls))"

declare visit_loop.simps [code]

text \<open>
  \<^verbatim>\<open>postvisitor(expr, fn, **kwargs)\<close>: the loop from \<^verbatim>\<open>[(expr, False)]\<close> and an empty
  memo, then \<^verbatim>\<open>return visited[expr]\<close>. The result is the returned value with the log of
  the applications of \<open>fn\<close>.
\<close>

definition postvisitor ::
  "heap \<Rightarrow> (addr \<Rightarrow> 'r list \<Rightarrow> 'k \<Rightarrow> 'r) \<Rightarrow> 'k \<Rightarrow> addr \<Rightarrow> (error + 'r \<times> addr list) option" where
  "postvisitor h fn kwargs expr =
     (case visit_loop h fn kwargs [(expr, False)] Map.empty [] of
        None \<Rightarrow> None
      | Some (Inl e) \<Rightarrow> Some (Inl e)
      | Some (Inr (visited, calls)) \<Rightarrow>
          (case visited expr of
             None \<Rightarrow> Some (Inl (KeyError expr))
           | Some r \<Rightarrow> Some (Inr (r, calls))))"

subsection \<open>Stores built by the constructors\<close>

text \<open>
  A constructor receives its operands, which exist already, and no node is changed after
  its construction: in a store filled in the order of construction, every operand of a
  node has a smaller address than the node.
\<close>

definition wf_heap :: "heap \<Rightarrow> bool" where
  "wf_heap h = (\<forall>a \<in> {..<length h}. \<forall>c \<in> set (node_operands (h ! a)). c < a)"

text \<open>The nodes reachable from a node: the node, its operands, their operands and so on.\<close>

definition edges :: "heap \<Rightarrow> (addr \<times> addr) set" where
  "edges h = {(a, c). a < length h \<and> c \<in> set (node_operands (h ! a))}"

definition reachable :: "heap \<Rightarrow> addr \<Rightarrow> addr set" where
  "reachable h start = (edges h)\<^sup>* `` {start}"

text \<open>
  The invariant of the loop: \<open>fn\<close> has been applied once to each node of the memo, the
  memo holds every operand of each of its nodes, and the value it holds for a node is
  \<open>fn\<close> of the node and of the values it holds for the operands.
\<close>

definition visit_inv ::
  "heap \<Rightarrow> (addr \<Rightarrow> 'r list \<Rightarrow> 'k \<Rightarrow> 'r) \<Rightarrow> 'k \<Rightarrow> (addr \<rightharpoonup> 'r) \<Rightarrow> addr list \<Rightarrow> bool" where
  "visit_inv h fn kwargs visited calls =
     (distinct calls \<and> dom visited = set calls
      \<and> (\<forall>a \<in> dom visited.
            a < length h \<and> set (node_operands (h ! a)) \<subseteq> dom visited
            \<and> visited a = Some (fn a (map (the \<circ> visited) (node_operands (h ! a))) kwargs)))"

text \<open>
  The stores of the examples: \<^verbatim>\<open>shared = Symbol("x"); e = Add(shared, shared)\<close>, and
  \<^verbatim>\<open>Add(Symbol("x"), Symbol("x"))\<close> built from two Symbols; and a function \<open>fn\<close> that
  counts the nodes below a node, one for each path to them.
\<close>

definition shared_heap :: heap where
  "shared_heap = [SymbolNode ''x'', OpNode Add [0, 0]]"

definition twins_heap :: heap where
  "twins_heap = [SymbolNode ''x'', SymbolNode ''x'', OpNode Add [0, 1]]"

definition count_fn :: "addr \<Rightarrow> nat list \<Rightarrow> unit \<Rightarrow> nat" where
  "count_fn node operand_results kwargs = 1 + sum_list operand_results"

section \<open>Properties of the renderer\<close>

lemma str_expr_parts:
  "str_expr (Op c ops) =
     join ('' '' @ py_str (symbol c) @ '' '') (map (rendered_operand c) (render_order c ops))"
proof (cases "c = Mul")
  case True
  have "rendered_operand Mul = str_expr"
    by (rule ext) (simp add: rendered_operand_def)
  with True show ?thesis
    by (simp add: render_order_def)
next
  case False
  then have "rendered_operand c =
      (\<lambda>operand. if is_Operator operand \<and> precedence operand < enat (class_precedence c)
                 then ''('' @ str_expr operand @ '')'' else str_expr operand)"
    by (intro ext) (simp add: rendered_operand_def)
  with False show ?thesis
    by (simp add: render_order_def)
qed

lemma join_append_parts:
  "\<exists>rest. length rest = length qs \<and> join sep (ps @ map f qs) = join sep (ps @ rest)"
  by (rule exI [of _ "map f qs"]) simp

lemma expr_not_own_operand: "a \<noteq> Op c (a # ops)"
proof
  assume "a = Op c (a # ops)"
  then have "size a = size (Op c (a # ops))" by simp
  then show False by simp
qed

text \<open>
  C1, as stated, fails: \<^verbatim>\<open>str(Mul(Add(Symbol("x"), Symbol("y")), Number(2)))\<close> is
  \<^verbatim>\<open>"2 * x + y"\<close>, not \<^verbatim>\<open>"(x + y) * 2"\<close>. \<^verbatim>\<open>Mul.__str__\<close> lists the Number first and
  parenthesizes no operand, although the Add is an Operator of precedence 1 under a parent
  of precedence 2.
\<close>

theorem Mul_str_counterexample:
  "str_expr (Op Mul [Op Add [Symbol ''x'', Symbol ''y''], Number (PyInt 2)]) = ''2 * x + y''
   \<and> str_expr (Op Mul [Op Add [Symbol ''x'', Symbol ''y''], Number (PyInt 2)]) \<noteq> ''(x + y) * 2''"
  by (simp add: str_int_def str_nat.simps digit_char_def)

text \<open>
  C1, amended: for every Operator node that is not a Mul, the rendering joins, with the
  node's symbol, the operands' renderings in order, an operand's rendering being
  parenthesized if and only if the operand is itself an Operator whose precedence is
  strictly less than the parent's; a Mul renders its Number operands before its other
  operands, so the rendering of \<^verbatim>\<open>Mul(Add(Symbol("x"), Symbol("y")), Number(2))\<close> begins
  with \<^verbatim>\<open>"2 * "\<close>.
\<close>

theorem Operator_str_parenthesizes:
  "(c \<noteq> Mul \<longrightarrow>
      str_expr (Op c ops) =
        join ('' '' @ py_str (symbol c) @ '' '')
          (map (\<lambda>operand.
                  if is_Operator operand \<and> precedence operand < precedence (Op c ops)
                  then ''('' @ str_expr operand @ '')'' else str_expr operand) ops))
   \<and> (\<exists>others. length others = length (filter (\<lambda>operand. \<not> is_Number operand) ops)
        \<and> str_expr (Op Mul ops) = join '' * '' (map str_expr (filter is_Number ops) @ others))
   \<and> take 4 (str_expr (Op Mul [Op Add [Symbol ''x'', Symbol ''y''], Number (PyInt 2)])) = ''2 * ''"
proof (intro conjI impI)
  assume "c \<noteq> Mul"
  then show "str_expr (Op c ops) =
        join ('' '' @ py_str (symbol c) @ '' '')
          (map (\<lambda>operand.
                  if is_Operator operand \<and> precedence operand < precedence (Op c ops)
                  then ''('' @ str_expr operand @ '')'' else str_expr operand) ops)"
    by simp
next
  show "\<exists>others. length others = length (filter (\<lambda>operand. \<not> is_Number operand) ops)
        \<and> str_expr (Op Mul ops) = join '' * '' (map str_expr (filter is_Number ops) @ others)"
    using join_append_parts [of "filter (\<lambda>operand. \<not> is_Number operand) ops" "'' * ''"
        "map str_expr (filter is_Number ops)" str_expr]
    by simp
next
  show "take 4 (str_expr (Op Mul [Op Add [Symbol ''x'', Symbol ''y''], Number (PyInt 2)])) = ''2 * ''"
    by (simp add: str_int_def str_nat.simps digit_char_def)
qed

theorem Operator_str_parenthesizes_witness:
  "Pow_op \<noteq> Mul
   \<and> str_expr (Op Pow_op [Op Add [Symbol ''x'', Symbol ''y''], Number (PyInt 2)]) = ''(x + y) ^ 2''"
  using Operator_str_parenthesizes [of Pow_op "[Op Add [Symbol ''x'', Symbol ''y''], Number (PyInt 2)]"]
  by (simp add: str_int_def str_nat.simps digit_char_def)

text \<open>
  C9: the rendering of an Operator node joins the texts of its operands, and the text of
  an operand whose precedence equals the parent's is the operand's own rendering, without
  parentheses; so, for all expressions \<open>a\<close>, \<open>b\<close> and \<open>d\<close>, \<^verbatim>\<open>Sub(Sub(a, b), d)\<close> and
  \<^verbatim>\<open>Sub(a, Sub(b, d))\<close> render to the same text although the two trees differ.
\<close>

theorem equal_precedence_not_parenthesized:
  "str_expr (Op c ops) =
     join ('' '' @ py_str (symbol c) @ '' '') (map (rendered_operand c) (render_order c ops))
   \<and> (precedence operand = precedence (Op c ops) \<longrightarrow> rendered_operand c operand = str_expr operand)
   \<and> str_expr (Op Sub [Op Sub [a, b], d]) = str_expr (Op Sub [a, Op Sub [b, d]])
   \<and> Op Sub [Op Sub [a, b], d] \<noteq> Op Sub [a, Op Sub [b, d]]"
proof (intro conjI impI)
  show "str_expr (Op c ops) =
     join ('' '' @ py_str (symbol c) @ '' '') (map (rendered_operand c) (render_order c ops))"
    by (rule str_expr_parts)
next
  assume "precedence operand = precedence (Op c ops)"
  then show "rendered_operand c operand = str_expr operand"
    by (simp add: rendered_operand_def)
next
  show "str_expr (Op Sub [Op Sub [a, b], d]) = str_expr (Op Sub [a, Op Sub [b, d]])"
    by simp
next
  show "Op Sub [Op Sub [a, b], d] \<noteq> Op Sub [a, Op Sub [b, d]]"
    using expr_not_own_operand [of a Sub "[b]"] by auto
qed

theorem equal_precedence_not_parenthesized_witness:
  "precedence (Op Sub [Symbol ''a'', Symbol ''b'']) =
     precedence (Op Sub [Op Sub [Symbol ''a'', Symbol ''b''], Symbol ''c''])
   \<and> rendered_operand Sub (Op Sub [Symbol ''a'', Symbol ''b'']) = ''a - b''
   \<and> str_expr (Op Sub [Op Sub [Symbol ''a'', Symbol ''b''], Symbol ''c'']) = ''a - b - c''
   \<and> str_expr (Op Sub [Symbol ''a'', Op Sub [Symbol ''b'', Symbol ''c'']]) = ''a - b - c''"
  using equal_precedence_not_parenthesized
    [of Sub "[Op Sub [Symbol ''a'', Symbol ''b''], Symbol ''c'']" "Op Sub [Symbol ''a'', Symbol ''b'']"
      "Symbol ''a''" "Symbol ''b''" "Symbol ''c''"]
  by simp

section \<open>Properties of the constructors and of the combinators\<close>

text \<open>
  C7: an operator class built with no operand raises a ValueError, a Number built from a
  value that is not numeric raises a ValueError, and so does a Symbol built from a value
  that is not a string; with at least one operand, a numeric value or a string the
  constructor returns the node.
\<close>

theorem constructors_validate:
  "new_Op c [] = Inl (ValueError ''Operators must have at least one operand'')
   \<and> (\<not> is_numeric v \<longrightarrow> new_Number v = Inl (ValueError ''Number value must be numeric''))
   \<and> (\<not> is_str v \<longrightarrow> new_Symbol v = Inl (ValueError ''Symbol value must be a string''))
   \<and> (ops \<noteq> [] \<longrightarrow> new_Op c ops = Inr (Op c ops))
   \<and> (is_numeric v \<longrightarrow> new_Number v = Inr (Number v))
   \<and> new_Symbol (PyStr s) = Inr (Symbol s)"
  by (cases v) (simp_all add: new_Op_def new_Number_def new_Symbol_def)

theorem constructors_validate_witness:
  "\<not> is_numeric (PyStr ''x'')
   \<and> new_Number (PyStr ''x'') = Inl (ValueError ''Number value must be numeric'')
   \<and> \<not> is_str (PyInt 5)
   \<and> new_Symbol (PyInt 5) = Inl (ValueError ''Symbol value must be a string'')
   \<and> [Symbol ''x'', Symbol ''y''] \<noteq> []
   \<and> new_Op Add [Symbol ''x'', Symbol ''y''] = Inr (Op Add [Symbol ''x'', Symbol ''y''])
   \<and> is_numeric (PyInt 5)
   \<and> new_Number (PyInt 5) = Inr (Number (PyInt 5))"
  using constructors_validate [of Add "PyStr ''x''" "[Symbol ''x'', Symbol ''y'']"]
    constructors_validate [of Add "PyInt 5" "[Symbol ''x'', Symbol ''y'']"]
  by simp

text \<open>
  C6: for every expression \<open>e\<close> and numeric literal \<open>n\<close>, each infix method wraps the
  literal in a Number; the reflected subtraction, division and exponentiation keep the
  literal first: \<^verbatim>\<open>n - e\<close> builds \<^verbatim>\<open>Sub(Number(n), e)\<close>, \<^verbatim>\<open>n / e\<close> builds
  \<^verbatim>\<open>Div(Number(n), e)\<close> and \<^verbatim>\<open>n ** e\<close> builds \<^verbatim>\<open>Pow(Number(n), e)\<close>.
\<close>

theorem reflected_operators_wrap_literal:
  "is_numeric n \<Longrightarrow>
     Expression_add e (Raw n) = Inr (Op Add [e, Number n])
   \<and> Expression_sub e (Raw n) = Inr (Op Sub [e, Number n])
   \<and> Expression_mul e (Raw n) = Inr (Op Mul [e, Number n])
   \<and> Expression_truediv e (Raw n) = Inr (Op Div [e, Number n])
   \<and> Expression_pow e (Raw n) = Inr (Op Pow_op [e, Number n])
   \<and> Expression_radd e (Raw n) = Inr (Op Add [e, Number n])
   \<and> Expression_rmul e (Raw n) = Inr (Op Mul [e, Number n])
   \<and> Expression_rsub e (Raw n) = Inr (Op Sub [Number n, e])
   \<and> Expression_rtruediv e (Raw n) = Inr (Op Div [Number n, e])
   \<and> Expression_rpow e (Raw n) = Inr (Op Pow_op [Number n, e])"
  by (simp add: Expression_add_def Expression_sub_def Expression_mul_def Expression_truediv_def
      Expression_pow_def Expression_radd_def Expression_rmul_def Expression_rsub_def
      Expression_rtruediv_def Expression_rpow_def new_Number_def new_Op_def)

theorem reflected_operators_wrap_literal_witness:
  "is_numeric (PyInt 5)
   \<and> Expression_rsub (Symbol ''x'') (Raw (PyInt 5)) = Inr (Op Sub [Number (PyInt 5), Symbol ''x''])
   \<and> Expression_rtruediv (Symbol ''x'') (Raw (PyInt 5)) = Inr (Op Div [Number (PyInt 5), Symbol ''x''])
   \<and> Expression_rpow (Symbol ''x'') (Raw (PyInt 5)) = Inr (Op Pow_op [Number (PyInt 5), Symbol ''x''])"
  using reflected_operators_wrap_literal [of "PyInt 5" "Symbol ''x''"] by simp

text \<open>
  C10: for every expression \<open>e\<close> and every value \<open>v\<close> that is neither an Expression nor an
  int, a float or a complex number, each of the ten infix methods raises the ValueError
  of \<^verbatim>\<open>Number(v)\<close>; none returns \<^verbatim>\<open>NotImplemented\<close> or raises a TypeError.
\<close>

theorem infix_non_numeric_ValueError:
  "\<not> is_numeric v \<Longrightarrow>
     Expression_add e (Raw v) = Inl (ValueError ''Number value must be numeric'')
   \<and> Expression_sub e (Raw v) = Inl (ValueError ''Number value must be numeric'')
   \<and> Expression_mul e (Raw v) = Inl (ValueError ''Number value must be numeric'')
   \<and> Expression_truediv e (Raw v) = Inl (ValueError ''Number value must be numeric'')
   \<and> Expression_pow e (Raw v) = Inl (ValueError ''Number value must be numeric'')
   \<and> Expression_radd e (Raw v) = Inl (ValueError ''Number value must be numeric'')
   \<and> Expression_rsub e (Raw v) = Inl (ValueError ''Number value must be numeric'')
   \<and> Expression_rmul e (Raw v) = Inl (ValueError ''Number value must be numeric'')
   \<and> Expression_rtruediv e (Raw v) = Inl (ValueError ''Number value must be numeric'')
   \<and> Expression_rpow e (Raw v) = Inl (ValueError ''Number value must be numeric'')"
  by (simp add: Expression_add_def Expression_sub_def Expression_mul_def Expression_truediv_def
      Expression_pow_def Expression_radd_def Expression_rmul_def Expression_rsub_def
      Expression_rtruediv_def Expression_rpow_def new_Number_def)

theorem infix_non_numeric_ValueError_witness:
  "\<not> is_numeric (PyStr ''a'')
   \<and> Expression_add (Symbol ''x'') (Raw (PyStr ''a'')) = Inl (ValueError ''Number value must be numeric'')
   \<and> Expression_rpow (Symbol ''x'') (Raw (PyStr ''a'')) = Inl (ValueError ''Number value must be numeric'')"
  using infix_non_numeric_ValueError [of "PyStr ''a''" "Symbol ''x''"] by simp

section \<open>Properties of the traversal engine\<close>

lemma reachable_self: "n \<in> reachable h n"
  by (simp add: reachable_def)

lemma reachable_unfold:
  "n < length h \<Longrightarrow> reachable h n = insert n (\<Union>c \<in> set (node_operands (h ! n)). reachable h c)"
proof (intro set_eqI iffI)
  fix b
  assume n: "n < length h" and "b \<in> reachable h n"
  then have "(n, b) \<in> (edges h)\<^sup>*" by (simp add: reachable_def)
  then show "b \<in> insert n (\<Union>c \<in> set (node_operands (h ! n)). reachable h c)"
  proof (cases rule: converse_rtranclE)
    case base
    then show ?thesis by simp
  next
    case (step c)
    then show ?thesis by (auto simp: reachable_def edges_def)
  qed
next
  fix b
  assume n: "n < length h" and "b \<in> insert n (\<Union>c \<in> set (node_operands (h ! n)). reachable h c)"
  then show "b \<in> reachable h n"
    by (auto simp: reachable_def edges_def intro: converse_rtrancl_into_rtrancl)
qed

lemma reachable_le:
  assumes "wf_heap h" and "b \<in> reachable h c"
  shows "b \<le> c"
proof -
  from assms(2) have "(c, b) \<in> (edges h)\<^sup>*" by (simp add: reachable_def)
  then show ?thesis
  proof (induction rule: rtrancl_induct)
    case base
    then show ?case by simp
  next
    case (step y z)
    from step.hyps(2) assms(1) have "z < y"
      by (auto simp: edges_def wf_heap_def)
    with step.IH show ?case by simp
  qed
qed

lemma reachable_closed:
  assumes closed: "\<forall>a \<in> S. a < length h \<and> set (node_operands (h ! a)) \<subseteq> S"
    and "c \<in> S"
  shows "reachable h c \<subseteq> S"
proof
  fix b
  assume "b \<in> reachable h c"
  then have "(c, b) \<in> (edges h)\<^sup>*" by (simp add: reachable_def)
  then show "b \<in> S"
  proof (induction rule: rtrancl_induct)
    case base
    from \<open>c \<in> S\<close> show ?case .
  next
    case (step y z)
    with closed show ?case by (auto simp: edges_def)
  qed
qed

lemma visit_inv_closed:
  assumes "visit_inv h fn kw V calls" and "c \<in> dom V"
  shows "reachable h c \<subseteq> dom V"
proof (rule reachable_closed)
  from assms(1) show "\<forall>a \<in> dom V. a < length h \<and> set (node_operands (h ! a)) \<subseteq> dom V"
    unfolding visit_inv_def by blast
  from assms(2) show "c \<in> dom V" .
qed

lemma lookup_all_dom:
  "set cs \<subseteq> dom V \<Longrightarrow> lookup_all V cs = Inr (map (the \<circ> V) cs)"
  by (induction cs) auto

lemma visit_loop_skip:
  "V n \<noteq> None \<Longrightarrow> visit_loop h fn kw ((n, p) # rest) V calls = visit_loop h fn kw rest V calls"
  by (subst visit_loop.simps) simp

lemma visit_loop_descend:
  "V n = None \<Longrightarrow> n < length h \<Longrightarrow>
     visit_loop h fn kw ((n, False) # rest) V calls =
       visit_loop h fn kw
         (map (\<lambda>child. (child, False)) (filter (\<lambda>child. V child = None) (node_operands (h ! n)))
          @ (n, True) # rest) V calls"
  by (subst visit_loop.simps) (simp add: operands_at_def)

lemma visit_loop_apply:
  "V n = None \<Longrightarrow> n < length h \<Longrightarrow> set (node_operands (h ! n)) \<subseteq> dom V \<Longrightarrow>
     visit_loop h fn kw ((n, True) # rest) V calls =
       visit_loop h fn kw rest
         (V(n \<mapsto> fn n (map (the \<circ> V) (node_operands (h ! n))) kw)) (calls @ [n])"
  by (subst visit_loop.simps) (simp add: operands_at_def lookup_all_dom)

lemma visit_loop_done: "visit_loop h fn kw [] V calls = Some (Inr (V, calls))"
  by (subst visit_loop.simps) simp

lemma visit_inv_apply:
  assumes inv: "visit_inv h fn kw V calls"
    and n: "n < length h" "n \<notin> dom V"
    and ops: "set (node_operands (h ! n)) \<subseteq> dom V"
  shows "visit_inv h fn kw (V(n \<mapsto> fn n (map (the \<circ> V) (node_operands (h ! n))) kw)) (calls @ [n])"
proof -
  let ?V = "V(n \<mapsto> fn n (map (the \<circ> V) (node_operands (h ! n))) kw)"
  have same: "map (the \<circ> ?V) (node_operands (h ! a)) = map (the \<circ> V) (node_operands (h ! a))"
    if "set (node_operands (h ! a)) \<subseteq> dom V" for a
    using that n(2) by (intro map_cong) auto
  from inv n have "distinct (calls @ [n])" and "dom ?V = set (calls @ [n])"
    by (auto simp: visit_inv_def)
  moreover have "a < length h \<and> set (node_operands (h ! a)) \<subseteq> dom ?V
      \<and> ?V a = Some (fn a (map (the \<circ> ?V) (node_operands (h ! a))) kw)"
    if "a \<in> dom ?V" for a
  proof (cases "a = n")
    case True
    have "?V n = Some (fn n (map (the \<circ> ?V) (node_operands (h ! n))) kw)"
      by (simp only: same [OF ops] fun_upd_same)
    moreover from ops have "set (node_operands (h ! n)) \<subseteq> dom ?V"
      by auto
    ultimately show ?thesis
      using True n(1) by blast
  next
    case False
    with that have a: "a \<in> dom V" by auto
    with inv have lt: "a < length h" and sub: "set (node_operands (h ! a)) \<subseteq> dom V"
      and val: "V a = Some (fn a (map (the \<circ> V) (node_operands (h ! a))) kw)"
      unfolding visit_inv_def by blast+
    from False val have "?V a = Some (fn a (map (the \<circ> V) (node_operands (h ! a))) kw)"
      by simp
    then have "?V a = Some (fn a (map (the \<circ> ?V) (node_operands (h ! a))) kw)"
      by (simp only: same [OF sub])
    moreover from sub have "set (node_operands (h ! a)) \<subseteq> dom ?V"
      by auto
    ultimately show ?thesis
      using lt by blast
  qed
  ultimately show ?thesis
    unfolding visit_inv_def by blast
qed


lemma visit_children:
  assumes step: "\<And>c V calls. c \<in> set cs \<Longrightarrow> visit_inv h fn kw V calls \<Longrightarrow>
      \<exists>V' calls'. (\<forall>rest. visit_loop h fn kw ((c, False) # rest) V calls = visit_loop h fn kw rest V' calls')
        \<and> visit_inv h fn kw V' calls' \<and> dom V' = dom V \<union> reachable h c"
    and inv: "visit_inv h fn kw V calls"
  shows "\<exists>V' calls'.
      (\<forall>rest. visit_loop h fn kw (map (\<lambda>child. (child, False)) cs @ rest) V calls
                = visit_loop h fn kw rest V' calls')
      \<and> visit_inv h fn kw V' calls' \<and> dom V' = dom V \<union> (\<Union>c \<in> set cs. reachable h c)"
  using assms
proof (induction cs arbitrary: V calls)
  case Nil
  then show ?case by auto
next
  case (Cons c cs)
  from Cons.prems(1) [of c V calls] Cons.prems(2)
  obtain V1 calls1 where
    run1: "\<And>rest. visit_loop h fn kw ((c, False) # rest) V calls = visit_loop h fn kw rest V1 calls1"
    and inv1: "visit_inv h fn kw V1 calls1"
    and dom1: "dom V1 = dom V \<union> reachable h c"
    by auto
  have "\<exists>V' calls'.
      (\<forall>rest. visit_loop h fn kw (map (\<lambda>child. (child, False)) cs @ rest) V1 calls1
                = visit_loop h fn kw rest V' calls')
      \<and> visit_inv h fn kw V' calls' \<and> dom V' = dom V1 \<union> (\<Union>c \<in> set cs. reachable h c)"
    using Cons.prems(1) inv1 by (intro Cons.IH) auto
  then obtain V2 calls2 where
    run2: "\<And>rest. visit_loop h fn kw (map (\<lambda>child. (child, False)) cs @ rest) V1 calls1
                = visit_loop h fn kw rest V2 calls2"
    and inv2: "visit_inv h fn kw V2 calls2"
    and dom2: "dom V2 = dom V1 \<union> (\<Union>c \<in> set cs. reachable h c)"
    by auto
  have "visit_loop h fn kw (map (\<lambda>child. (child, False)) (c # cs) @ rest) V calls
          = visit_loop h fn kw rest V2 calls2" for rest
    using run1 [of "map (\<lambda>child. (child, False)) cs @ rest"] run2 [of rest] by simp
  moreover from dom1 dom2 have "dom V2 = dom V \<union> (\<Union>c \<in> set (c # cs). reachable h c)"
    by auto
  ultimately show ?case
    using inv2 by blast
qed

lemma visit_node:
  assumes wf: "wf_heap h"
  shows "n < length h \<Longrightarrow> visit_inv h fn kw V calls \<Longrightarrow>
    \<exists>V' calls'. (\<forall>rest. visit_loop h fn kw ((n, False) # rest) V calls = visit_loop h fn kw rest V' calls')
      \<and> visit_inv h fn kw V' calls' \<and> dom V' = dom V \<union> reachable h n"
proof (induction n arbitrary: V calls rule: less_induct)
  case (less n)
  note n = \<open>n < length h\<close> and inv = \<open>visit_inv h fn kw V calls\<close>
  show ?case
  proof (cases "V n")
    case (Some r)
    then have "n \<in> dom V" by auto
    with inv have "reachable h n \<subseteq> dom V"
      by (rule visit_inv_closed)
    then have "dom V = dom V \<union> reachable h n" by auto
    moreover from Some
    have "\<forall>rest. visit_loop h fn kw ((n, False) # rest) V calls = visit_loop h fn kw rest V calls"
      by (simp add: visit_loop_skip)
    ultimately show ?thesis
      using inv by blast
  next
    case None
    let ?ops = "node_operands (h ! n)"
    let ?cs = "filter (\<lambda>child. V child = None) ?ops"
    have small: "c < n" if "c \<in> set ?ops" for c
      using wf n that unfolding wf_heap_def by auto
    have "\<exists>V1 calls1.
      (\<forall>rest. visit_loop h fn kw (map (\<lambda>child. (child, False)) ?cs @ rest) V calls
                = visit_loop h fn kw rest V1 calls1)
      \<and> visit_inv h fn kw V1 calls1 \<and> dom V1 = dom V \<union> (\<Union>c \<in> set ?cs. reachable h c)"
    proof (rule visit_children)
      fix c and V :: "addr \<rightharpoonup> 'a" and calls
      assume "c \<in> set ?cs" and "visit_inv h fn kw V calls"
      with small [of c] n show "\<exists>V' calls'.
          (\<forall>rest. visit_loop h fn kw ((c, False) # rest) V calls = visit_loop h fn kw rest V' calls')
          \<and> visit_inv h fn kw V' calls' \<and> dom V' = dom V \<union> reachable h c"
        by (intro less.IH) auto
    next
      from inv show "visit_inv h fn kw V calls" .
    qed
    then obtain V1 calls1 where
      run1: "\<And>rest. visit_loop h fn kw (map (\<lambda>child. (child, False)) ?cs @ rest) V calls
                = visit_loop h fn kw rest V1 calls1"
      and inv1: "visit_inv h fn kw V1 calls1"
      and dom1: "dom V1 = dom V \<union> (\<Union>c \<in> set ?cs. reachable h c)"
      by auto
    have below: "b < n" if "c \<in> set ?ops" "b \<in> reachable h c" for b c
      using reachable_le [OF wf that(2)] small [OF that(1)] by simp
    have "n \<notin> reachable h c" if "c \<in> set ?cs" for c
      using below [of c n] that by auto
    with None dom1 have n_new: "n \<notin> dom V1"
      by auto
    then have V1n: "V1 n = None" by auto
    have ops_in: "set ?ops \<subseteq> dom V1"
    proof
      fix c
      assume c: "c \<in> set ?ops"
      show "c \<in> dom V1"
      proof (cases "V c")
        case None
        with c have "c \<in> set ?cs" by simp
        with dom1 reachable_self [of c h] show ?thesis by blast
      next
        case (Some r)
        with dom1 show ?thesis by auto
      qed
    qed
    let ?V2 = "V1(n \<mapsto> fn n (map (the \<circ> V1) ?ops) kw)"
    from inv1 n n_new ops_in have inv2: "visit_inv h fn kw ?V2 (calls1 @ [n])"
      by (rule visit_inv_apply)
    have run: "visit_loop h fn kw ((n, False) # rest) V calls
                 = visit_loop h fn kw rest ?V2 (calls1 @ [n])" for rest
    proof -
      have "visit_loop h fn kw ((n, False) # rest) V calls
              = visit_loop h fn kw (map (\<lambda>child. (child, False)) ?cs @ (n, True) # rest) V calls"
        using None n by (rule visit_loop_descend)
      also have "\<dots> = visit_loop h fn kw ((n, True) # rest) V1 calls1"
        by (rule run1)
      also have "\<dots> = visit_loop h fn kw rest ?V2 (calls1 @ [n])"
        using V1n n ops_in by (rule visit_loop_apply)
      finally show ?thesis .
    qed
    have visited_closed: "reachable h c \<subseteq> dom V" if "c \<in> set ?ops" "V c \<noteq> None" for c
      using inv that(2) by (intro visit_inv_closed) auto
    have "(\<Union>c \<in> set ?ops. reachable h c) \<subseteq> dom V \<union> (\<Union>c \<in> set ?cs. reachable h c)"
    proof
      fix b
      assume "b \<in> (\<Union>c \<in> set ?ops. reachable h c)"
      then obtain c where c: "c \<in> set ?ops" "b \<in> reachable h c" by auto
      show "b \<in> dom V \<union> (\<Union>c \<in> set ?cs. reachable h c)"
      proof (cases "V c")
        case None
        with c show ?thesis by auto
      next
        case (Some r)
        with visited_closed [of c] c show ?thesis by auto
      qed
    qed
    moreover have "(\<Union>c \<in> set ?cs. reachable h c) \<subseteq> (\<Union>c \<in> set ?ops. reachable h c)"
      by auto
    ultimately have "dom ?V2 = dom V \<union> reachable h n"
      using dom1 reachable_unfold [OF n] by auto
    with run inv2 show ?thesis
      by blast
  qed
qed

lemma wf_shared_heap: "wf_heap shared_heap"
  by (simp add: wf_heap_def shared_heap_def lessThan_Suc numeral_2_eq_2)

lemma wf_twins_heap: "wf_heap twins_heap"
  by (simp add: wf_heap_def twins_heap_def lessThan_Suc numeral_3_eq_3)

lemma postvisitor_shared:
  "postvisitor shared_heap count_fn () 1 = Some (Inr (3, [0, 1]))"
  by (simp add: postvisitor_def visit_loop.simps operands_at_def count_fn_def shared_heap_def)

lemma postvisitor_twins:
  "postvisitor twins_heap count_fn () 2 = Some (Inr (3, [0, 1, 2]))"
  by (simp add: postvisitor_def visit_loop.simps operands_at_def count_fn_def twins_heap_def)

text \<open>
  C4: on a store built by the constructors, for every node \<open>start\<close>, every \<open>fn\<close> and every
  keyword arguments, \<^verbatim>\<open>postvisitor\<close> returns; \<open>fn\<close> has been applied exactly once to each
  node reachable from \<open>start\<close>, a node being known by its address and not by its content,
  and to no other node; and the value returned is the value of \<open>start\<close> under the one
  assignment \<open>val\<close> that gives every reachable node \<open>fn\<close> of the node and of the values of
  its operands. With \<^verbatim>\<open>shared = Symbol("x")\<close> and \<^verbatim>\<open>e = Add(shared, shared)\<close> that is
  2 applications; with two Symbols of equal content it is 3 (\<open>postvisitor_shared\<close>,
  \<open>postvisitor_twins\<close> and the witness).
\<close>

theorem postvisitor_once_per_node:
  assumes "wf_heap h" and "start < length h"
  shows "\<exists>val calls.
      postvisitor h fn kwargs start = Some (Inr (val start, calls))
      \<and> distinct calls \<and> set calls = reachable h start
      \<and> (\<forall>a \<in> reachable h start. val a = fn a (map val (node_operands (h ! a))) kwargs)"
proof -
  have "visit_inv h fn kwargs Map.empty []"
    by (simp add: visit_inv_def)
  with visit_node [OF assms, of fn kwargs Map.empty "[]"]
  obtain V calls where
    run: "\<And>rest. visit_loop h fn kwargs ((start, False) # rest) Map.empty [] = visit_loop h fn kwargs rest V calls"
    and inv: "visit_inv h fn kwargs V calls"
    and dom: "dom V = reachable h start"
    by auto
  from run [of "[]"] have loop: "visit_loop h fn kwargs [(start, False)] Map.empty [] = Some (Inr (V, calls))"
    by (simp add: visit_loop_done)
  from dom reachable_self [of start h] obtain r where r: "V start = Some r"
    by auto
  with loop have "postvisitor h fn kwargs start = Some (Inr ((the \<circ> V) start, calls))"
    by (simp add: postvisitor_def)
  moreover from inv dom have "distinct calls" "set calls = reachable h start"
    by (auto simp: visit_inv_def)
  moreover have "(the \<circ> V) a = fn a (map (the \<circ> V) (node_operands (h ! a))) kwargs"
    if "a \<in> reachable h start" for a
    using inv dom that by (auto simp: visit_inv_def)
  ultimately show ?thesis
    by blast
qed

theorem postvisitor_once_per_node_witness:
  "wf_heap shared_heap \<and> 1 < length shared_heap
   \<and> (\<exists>val calls.
        postvisitor shared_heap count_fn () 1 = Some (Inr (val (1::addr), calls))
        \<and> distinct calls \<and> set calls = reachable shared_heap 1 \<and> length calls = 2)
   \<and> wf_heap twins_heap \<and> 2 < length twins_heap
   \<and> (\<exists>val calls.
        postvisitor twins_heap count_fn () 2 = Some (Inr (val (2::addr), calls))
        \<and> distinct calls \<and> set calls = reachable twins_heap 2 \<and> length calls = 3)"
proof -
  have len1: "1 < length shared_heap"
    by (simp add: shared_heap_def)
  from postvisitor_once_per_node [OF wf_shared_heap len1, of count_fn "()"]
  obtain val1 calls1 where
    res1: "postvisitor shared_heap count_fn () 1 = Some (Inr (val1 (1::addr), calls1))"
    and log1: "distinct calls1" "set calls1 = reachable shared_heap 1"
    by (elim exE conjE)
  from res1 postvisitor_shared have "calls1 = [0, 1]"
    by simp
  then have two: "length calls1 = 2"
    by simp
  have len2: "2 < length twins_heap"
    by (simp add: twins_heap_def)
  from postvisitor_once_per_node [OF wf_twins_heap len2, of count_fn "()"]
  obtain val2 calls2 where
    res2: "postvisitor twins_heap count_fn () 2 = Some (Inr (val2 (2::addr), calls2))"
    and log2: "distinct calls2" "set calls2 = reachable twins_heap 2"
    by (elim exE conjE)
  from res2 postvisitor_twins have "calls2 = [0, 1, 2]"
    by simp
  then have three: "length calls2 = 3"
    by simp
  from res1 log1 two have shared:
    "\<exists>val calls. postvisitor shared_heap count_fn () 1 = Some (Inr (val (1::addr), calls))
        \<and> distinct calls \<and> set calls = reachable shared_heap 1 \<and> length calls = 2"
    by (intro exI [of _ val1] exI [of _ calls1] conjI)
  from res2 log2 three have twins:
    "\<exists>val calls. postvisitor twins_heap count_fn () 2 = Some (Inr (val (2::addr), calls))
        \<and> distinct calls \<and> set calls = reachable twins_heap 2 \<and> length calls = 3"
    by (intro exI [of _ val2] exI [of _ calls2] conjI)
  from wf_shared_heap len1 shared wf_twins_heap len2 twins
  show ?thesis by (intro conjI)
qed

section \<open>Properties of the differentiation engine\<close>

lemma new_Op_nonempty: "new_Op c (x # xs) = Inr (Op c (x # xs))"
  by (simp add: new_Op_def)

lemma unpack_error_ValueError: "\<exists>msg. unpack_error n = ValueError msg"
  by (simp add: unpack_error_def)

lemma differentiate_Mul_arity:
  "length ops \<noteq> 2 \<Longrightarrow> differentiate (Op Mul ops) var = Inl (unpack_error (length ops))"
  by (auto split: list.splits)

text \<open>
  C2 asks that a node of a class without a registered rule (a Sub, a bare Operator, a bare
  Terminal) makes \<^verbatim>\<open>differentiate\<close> raise a NotImplementedError that names the class.
  The code does not: on \<^verbatim>\<open>Sub(Symbol("x"), Symbol("y"))\<close> the default of the dispatch raises
  the AttributeError of \<^verbatim>\<open>type(expr)._name_\<close>, and on no node of these classes is the
  exception a NotImplementedError.
\<close>

theorem differentiate_unregistered_AttributeError:
  "differentiate (Op Sub [Symbol ''x'', Symbol ''y'']) ''x'' =
     Inl (AttributeError (''type object '' @ [CHR 0x27] @ ''Sub'' @ [CHR 0x27]
                          @ '' has no attribute '' @ [CHR 0x27] @ ''_name_'' @ [CHR 0x27]))
   \<and> (\<forall>msg. differentiate (Op Sub ops) var \<noteq> Inl (NotImplementedError msg))
   \<and> (\<forall>msg. differentiate (Op Operator ops) var \<noteq> Inl (NotImplementedError msg))
   \<and> (\<forall>msg. differentiate (Terminal v) var \<noteq> Inl (NotImplementedError msg))"
  by (simp add: default_rule_def)

text \<open>
  C3, as stated, fails: the derivative of \<^verbatim>\<open>Pow(Symbol("x"), Number(3))\<close> is not
  \<^verbatim>\<open>Mul(Mul(Number(3), Pow(Symbol("x"), Number(2))), Number(1))\<close>; the rule builds the
  lowered exponent as a Sub node and evaluates nothing.
\<close>

theorem differentiate_Pow_counterexample:
  "differentiate (Op Pow_op [Symbol ''x'', Number (PyInt 3)]) ''x'' \<noteq>
     Inr (Op Mul [Op Mul [Number (PyInt 3), Op Pow_op [Symbol ''x'', Number (PyInt 2)]],
                  Number (PyInt 1)])"
  by (simp add: new_Op_def new_Number_def)

text \<open>
  C3, amended: \<^verbatim>\<open>differentiate(Pow(Symbol("x"), Number(3)), var="x")\<close> returns an
  expression structurally equal to
  \<^verbatim>\<open>Mul(Mul(Number(3), Pow(Symbol("x"), Sub(Number(3), Number(1)))), Number(1))\<close>.
\<close>

theorem differentiate_Pow_constant_exponent:
  "differentiate (Op Pow_op [Symbol ''x'', Number (PyInt 3)]) ''x'' =
     Inr (Op Mul [Op Mul [Number (PyInt 3),
                          Op Pow_op [Symbol ''x'', Op Sub [Number (PyInt 3), Number (PyInt 1)]]],
                  Number (PyInt 1)])"
  by (simp add: new_Op_def new_Number_def)

text \<open>
  C5: for every Mul of two operands \<open>f\<close> and \<open>g\<close> whose derivatives are \<open>df\<close> and \<open>dg\<close>,
  \<^verbatim>\<open>differentiate\<close> returns \<^verbatim>\<open>Add(Mul(df, g), Mul(dg, f))\<close>, in that operand order; for a
  Mul whose number of operands is not 2, it raises the ValueError of the unpacking.
\<close>

theorem differentiate_Mul_binary:
  "(differentiate f var = Inr df \<and> differentiate g var = Inr dg \<longrightarrow>
      differentiate (Op Mul [f, g]) var = Inr (Op Add [Op Mul [df, g], Op Mul [dg, f]]))
   \<and> (length ops \<noteq> 2 \<longrightarrow> (\<exists>msg. differentiate (Op Mul ops) var = Inl (ValueError msg)))"
proof (intro conjI impI)
  assume "differentiate f var = Inr df \<and> differentiate g var = Inr dg"
  then show "differentiate (Op Mul [f, g]) var = Inr (Op Add [Op Mul [df, g], Op Mul [dg, f]])"
    by (simp add: new_Op_nonempty)
next
  assume "length ops \<noteq> 2"
  then have "differentiate (Op Mul ops) var = Inl (unpack_error (length ops))"
    by (rule differentiate_Mul_arity)
  with unpack_error_ValueError [of "length ops"]
  show "\<exists>msg. differentiate (Op Mul ops) var = Inl (ValueError msg)"
    by auto
qed

theorem differentiate_Mul_binary_witness:
  "differentiate (Symbol ''x'') ''x'' = Inr (Number (PyInt 1))
   \<and> differentiate (Symbol ''y'') ''x'' = Inr (Number (PyInt 0))
   \<and> differentiate (Op Mul [Symbol ''x'', Symbol ''y'']) ''x'' =
       Inr (Op Add [Op Mul [Number (PyInt 1), Symbol ''y''], Op Mul [Number (PyInt 0), Symbol ''x'']])
   \<and> length [Symbol ''x'', Symbol ''y'', Symbol ''z''] \<noteq> 2
   \<and> (\<exists>msg. differentiate (Op Mul [Symbol ''x'', Symbol ''y'', Symbol ''z'']) ''x'' = Inl (ValueError msg))"
proof -
  have dx: "differentiate (Symbol ''x'') ''x'' = Inr (Number (PyInt 1))"
    and dy: "differentiate (Symbol ''y'') ''x'' = Inr (Number (PyInt 0))"
    by (simp_all add: new_Number_def)
  have three: "length [Symbol ''x'', Symbol ''y'', Symbol ''z''] \<noteq> 2"
    by simp
  from dx dy three
    differentiate_Mul_binary [of "Symbol ''x''" "''x''" "Number (PyInt 1)" "Symbol ''y''"
      "Number (PyInt 0)" "[Symbol ''x'', Symbol ''y'', Symbol ''z'']"]
  show ?thesis by blast
qed

text \<open>
  C8: for every Pow node of a base and an exponent that is not a Number, and for every
  variable name, \<^verbatim>\<open>differentiate\<close> raises the NotImplementedError that says variable
  exponents are not supported.
\<close>

theorem differentiate_Pow_variable_exponent:
  "\<not> is_Number exponent \<Longrightarrow>
     differentiate (Op Pow_op [base, exponent]) var =
       Inl (NotImplementedError ''Variable exponents are not yet supported.'')"
  by simp

theorem differentiate_Pow_variable_exponent_witness:
  "\<not> is_Number (Symbol ''n'')
   \<and> differentiate (Op Pow_op [Symbol ''x'', Symbol ''n'']) ''x'' =
       Inl (NotImplementedError ''Variable exponents are not yet supported.'')"
  using differentiate_Pow_variable_exponent [of "Symbol ''n''" "Symbol ''x''" "''x''"] by simp

end
